theory Spec2Isabelle
  imports Main "HOL-Library.Word"
begin

unbundle bit_operations_syntax

section \<open>The focuser interface of indifocuserinterface.h\<close>

subsection \<open>Capabilities (class FocuserInterface, public part)\<close>

text \<open>
  \<^verbatim>\<open>enum FocusDirection { FOCUS_INWARD, FOCUS_OUTWARD };\<close>
\<close>

datatype FocusDirection = FOCUS_INWARD | FOCUS_OUTWARD

text \<open>
  The anonymous enum \<^verbatim>\<open>FocuserCapability\<close>: four flags, \<^verbatim>\<open>1 << 0\<close> to
  \<^verbatim>\<open>1 << 3\<close>. They are only ever combined with the \<^verbatim>\<open>uint32_t\<close> member
  \<^verbatim>\<open>capability\<close>, so they are given as 32-bit words.
\<close>

definition FOCUSER_CAN_ABS_MOVE :: "32 word" where
  "FOCUSER_CAN_ABS_MOVE = push_bit 0 1"

definition FOCUSER_CAN_REL_MOVE :: "32 word" where
  "FOCUSER_CAN_REL_MOVE = push_bit 1 1"

definition FOCUSER_CAN_ABORT :: "32 word" where
  "FOCUSER_CAN_ABORT = push_bit 2 1"

definition FOCUSER_HAS_VARIABLE_SPEED :: "32 word" where
  "FOCUSER_HAS_VARIABLE_SPEED = push_bit 3 1"

text \<open>
  The object. The header gives \<^verbatim>\<open>uint32_t capability\<close>; the property members
  (\<^verbatim>\<open>FocusSpeedNP\<close> ... \<^verbatim>\<open>AbortS\<close>, \<^verbatim>\<open>lastTimerValue\<close>,
  \<^verbatim>\<open>m_defaultDevice\<close>) have types that are declared outside this header.
  They live in the extension part of the record, so every function below is stated for
  \<open>'a FocuserInterface_scheme\<close>: an object with the capability mask and any further members.
\<close>

record FocuserInterface =
  capability :: "32 word"

text \<open>
  Member functions take the object and return the object they leave behind. A function
  with a result returns the pair of result and object: the four \<^verbatim>\<open>Can...\<close> queries are
  not declared \<^verbatim>\<open>const\<close>, so what they do to the object is read off their bodies.

  \<^verbatim>\<open>uint32_t GetCapability() const { return capability; }\<close>
\<close>

definition GetCapability :: "'a FocuserInterface_scheme \<Rightarrow> 32 word \<times> 'a FocuserInterface_scheme" where
  "GetCapability this = (capability this, this)"

text \<open>\<^verbatim>\<open>void SetCapability(uint32_t cap) { capability = cap; }\<close>\<close>

definition SetCapability :: "32 word \<Rightarrow> 'a FocuserInterface_scheme \<Rightarrow> 'a FocuserInterface_scheme" where
  "SetCapability cap this = this\<lparr>capability := cap\<rparr>"

text \<open>
  \<^verbatim>\<open>bool CanAbsMove() { return capability & FOCUSER_CAN_ABS_MOVE; }\<close> and its three
  siblings: the conversion of the masked word to \<^verbatim>\<open>bool\<close> is the test against zero.
\<close>

definition CanAbsMove :: "'a FocuserInterface_scheme \<Rightarrow> bool \<times> 'a FocuserInterface_scheme" where
  "CanAbsMove this = (capability this AND FOCUSER_CAN_ABS_MOVE \<noteq> 0, this)"

definition CanRelMove :: "'a FocuserInterface_scheme \<Rightarrow> bool \<times> 'a FocuserInterface_scheme" where
  "CanRelMove this = (capability this AND FOCUSER_CAN_REL_MOVE \<noteq> 0, this)"

definition CanAbort :: "'a FocuserInterface_scheme \<Rightarrow> bool \<times> 'a FocuserInterface_scheme" where
  "CanAbort this = (capability this AND FOCUSER_CAN_ABORT \<noteq> 0, this)"

definition HasVariableSpeed :: "'a FocuserInterface_scheme \<Rightarrow> bool \<times> 'a FocuserInterface_scheme" where
  "HasVariableSpeed this = (capability this AND FOCUSER_HAS_VARIABLE_SPEED \<noteq> 0, this)"

text \<open>A driver's constructor may call \<^verbatim>\<open>SetCapability\<close> several times in a row.\<close>

fun SetCapability_calls :: "32 word list \<Rightarrow> 'a FocuserInterface_scheme \<Rightarrow> 'a FocuserInterface_scheme" where
  "SetCapability_calls [] this = this"
| "SetCapability_calls (cap # caps) this = SetCapability_calls caps (SetCapability cap this)"

section \<open>The motion primitives a driver supplies\<close>

text \<open>
  Modelled from the spec: the result type \<^verbatim>\<open>IPState\<close> of the three move primitives
  is declared outside this header. The spec's tri-state outcome stands for
  it; the header's comments name its values \<^verbatim>\<open>IPS_OK\<close> (completed),
  \<^verbatim>\<open>IPS_BUSY\<close> (in progress) and \<^verbatim>\<open>IPS_ALERT\<close> (error).
\<close>

datatype OperationOutcome = Completed | InProgress | Failed

text \<open>
  The five virtual functions of the header (lines 126 to 168), which a concrete driver
  overrides. \<open>'h\<close> is whatever the driver and its hardware hold; a primitive reads and
  changes it and returns its result. \<^verbatim>\<open>int speed\<close> and \<^verbatim>\<open>uint32_t\<close> ticks are 32-bit
  words, \<^verbatim>\<open>uint16_t duration\<close> a 16-bit word.
\<close>

record 'h Driver =
  SetFocuserSpeed :: "32 word \<Rightarrow> 'h \<Rightarrow> bool \<times> 'h"
  MoveFocuser :: "FocusDirection \<Rightarrow> 32 word \<Rightarrow> 16 word \<Rightarrow> 'h \<Rightarrow> OperationOutcome \<times> 'h"
  MoveAbsFocuser :: "32 word \<Rightarrow> 'h \<Rightarrow> OperationOutcome \<times> 'h"
  MoveRelFocuser :: "FocusDirection \<Rightarrow> 32 word \<Rightarrow> 'h \<Rightarrow> OperationOutcome \<times> 'h"
  AbortFocuser :: "'h \<Rightarrow> bool \<times> 'h"

text \<open>
  Modelled from the spec: section 8 observes invocations as a call count on a test
  double. A harness pairs the driver's state with the list of primitive calls made so
  far, and each primitive is reached through a function that runs it and appends its
  call, arguments included.
\<close>

datatype Call =
    Call_SetFocuserSpeed "32 word"
  | Call_MoveFocuser FocusDirection "32 word" "16 word"
  | Call_MoveAbsFocuser "32 word"
  | Call_MoveRelFocuser FocusDirection "32 word"
  | Call_AbortFocuser

record 'h Harness =
  driver_state :: 'h
  calls :: "Call list"

definition logged :: "Call \<Rightarrow> ('h \<Rightarrow> 'r \<times> 'h) \<Rightarrow> 'h Harness \<Rightarrow> 'r \<times> 'h Harness" where
  "logged c f w =
     (case f (driver_state w) of
        (r, h') \<Rightarrow> (r, \<lparr>driver_state = h', calls = calls w @ [c]\<rparr>))"

definition call_SetFocuserSpeed :: "'h Driver \<Rightarrow> 32 word \<Rightarrow> 'h Harness \<Rightarrow> bool \<times> 'h Harness" where
  "call_SetFocuserSpeed drv speed = logged (Call_SetFocuserSpeed speed) (SetFocuserSpeed drv speed)"

definition call_MoveFocuser ::
  "'h Driver \<Rightarrow> FocusDirection \<Rightarrow> 32 word \<Rightarrow> 16 word \<Rightarrow> 'h Harness \<Rightarrow> OperationOutcome \<times> 'h Harness" where
  "call_MoveFocuser drv dir speed duration =
     logged (Call_MoveFocuser dir speed duration) (MoveFocuser drv dir speed duration)"

definition call_MoveAbsFocuser :: "'h Driver \<Rightarrow> 32 word \<Rightarrow> 'h Harness \<Rightarrow> OperationOutcome \<times> 'h Harness" where
  "call_MoveAbsFocuser drv targetTicks = logged (Call_MoveAbsFocuser targetTicks) (MoveAbsFocuser drv targetTicks)"

definition call_MoveRelFocuser ::
  "'h Driver \<Rightarrow> FocusDirection \<Rightarrow> 32 word \<Rightarrow> 'h Harness \<Rightarrow> OperationOutcome \<times> 'h Harness" where
  "call_MoveRelFocuser drv dir ticks = logged (Call_MoveRelFocuser dir ticks) (MoveRelFocuser drv dir ticks)"

definition call_AbortFocuser :: "'h Driver \<Rightarrow> 'h Harness \<Rightarrow> bool \<times> 'h Harness" where
  "call_AbortFocuser drv = logged Call_AbortFocuser (AbortFocuser drv)"

text \<open>
  Modelled from the spec: the test double of section 8. Its state is the number of
  primitive calls it has served; it answers every boolean primitive with \<open>ok\<close> and every
  move with \<open>r\<close>.
\<close>

definition test_double :: "bool \<Rightarrow> OperationOutcome \<Rightarrow> nat Driver" where
  "test_double ok r =
     \<lparr>SetFocuserSpeed = (\<lambda>speed n. (ok, Suc n)),
      MoveFocuser = (\<lambda>dir speed duration n. (r, Suc n)),
      MoveAbsFocuser = (\<lambda>targetTicks n. (r, Suc n)),
      MoveRelFocuser = (\<lambda>dir ticks n. (r, Suc n)),
      AbortFocuser = (\<lambda>n. (ok, Suc n))\<rparr>"

definition no_calls :: "nat Harness" where
  "no_calls = \<lparr>driver_state = 0, calls = []\<rparr>"

section \<open>Command dispatch\<close>

text \<open>
  The bodies of \<^verbatim>\<open>processNumber\<close> and \<^verbatim>\<open>processSwitch\<close>, which route a client's
  command to a primitive, are not in the header, which only declares them. The
  dispatcher below follows sections 3, 4.2 and 4.3 of the specification.
\<close>

subsection \<open>MotionState\<close>

text \<open>
  Modelled from the spec: the command kinds (section 1: speed-set, timed move, absolute
  move, relative move, abort); the bodies that tell them apart by property name are missing.
\<close>

datatype Kind = Kind_SetSpeed | Kind_TimedMove | Kind_AbsoluteMove | Kind_RelativeMove | Kind_Abort

text \<open>
  Modelled from the spec: MotionState (section 3), held in the header by the property
  members whose types are declared elsewhere: the last requested speed, timed move
  (direction and duration), position and relative move (direction and delta), and the
  outcome of each kind, \<open>None\<close> while the kind is idle.
\<close>

record MotionState =
  requested_speed :: "32 word"
  requested_timed :: "FocusDirection \<times> 16 word"
  requested_position :: "32 word"
  requested_relative :: "FocusDirection \<times> 32 word"
  outcome :: "Kind \<Rightarrow> OperationOutcome option"

text \<open>Modelled from the spec: \<^verbatim>\<open>record_speed_request(speed)\<close> of section 4.2; its body is missing.\<close>

definition record_speed_request :: "32 word \<Rightarrow> MotionState \<Rightarrow> MotionState" where
  "record_speed_request speed m = m\<lparr>requested_speed := speed\<rparr>"

text \<open>Modelled from the spec: \<^verbatim>\<open>record_timed_move(direction, duration)\<close> of section 4.2; its body is missing.\<close>

definition record_timed_move :: "FocusDirection \<Rightarrow> 16 word \<Rightarrow> MotionState \<Rightarrow> MotionState" where
  "record_timed_move dir duration m = m\<lparr>requested_timed := (dir, duration)\<rparr>"

text \<open>Modelled from the spec: \<^verbatim>\<open>record_absolute_move(position)\<close> of section 4.2; its body is missing.\<close>

definition record_absolute_move :: "32 word \<Rightarrow> MotionState \<Rightarrow> MotionState" where
  "record_absolute_move position m = m\<lparr>requested_position := position\<rparr>"

text \<open>Modelled from the spec: \<^verbatim>\<open>record_relative_move(direction, delta)\<close> of section 4.2; its body is missing.\<close>

definition record_relative_move :: "FocusDirection \<Rightarrow> 32 word \<Rightarrow> MotionState \<Rightarrow> MotionState" where
  "record_relative_move dir delta m = m\<lparr>requested_relative := (dir, delta)\<rparr>"

text \<open>Modelled from the spec: \<^verbatim>\<open>set_outcome(kind, outcome)\<close> of section 4.2; its body is missing.\<close>

definition set_outcome :: "Kind \<Rightarrow> OperationOutcome \<Rightarrow> MotionState \<Rightarrow> MotionState" where
  "set_outcome k r m = m\<lparr>outcome := (outcome m)(k := Some r)\<rparr>"

text \<open>Modelled from the spec: \<^verbatim>\<open>current_outcome(kind)\<close> of section 4.2; its body is missing.\<close>

definition current_outcome :: "MotionState \<Rightarrow> Kind \<Rightarrow> OperationOutcome option" where
  "current_outcome m k = outcome m k"

text \<open>
  Modelled from the spec: what an invoked Abort does to MotionState (section 4.3, step
  3): every outcome that is in progress becomes terminal, as the primitive reports,
  Completed on its success and Failed on its failure; the other outcomes stay. The body
  of \<^verbatim>\<open>processSwitch\<close> that does this is missing.
\<close>

definition resolve_in_progress :: "bool \<Rightarrow> MotionState \<Rightarrow> MotionState" where
  "resolve_in_progress ok m =
     m\<lparr>outcome := (\<lambda>k. if outcome m k = Some InProgress
                          then Some (if ok then Completed else Failed)
                          else outcome m k)\<rparr>"

subsection \<open>CommandDispatcher\<close>

text \<open>
  Modelled from the spec: the object that the dispatcher works on, the capability mask
  of the header together with MotionState.
\<close>

record CommandDispatcher = FocuserInterface +
  motion :: MotionState

text \<open>
  Modelled from the spec: the commands with their parameters, as section 4.3 (step 3)
  and section 6 list them: a timed move carries direction, speed and duration.
\<close>

datatype Command =
    SetSpeed "32 word"
  | TimedMove FocusDirection "32 word" "16 word"
  | AbsoluteMove "32 word"
  | RelativeMove FocusDirection "32 word"
  | Abort

text \<open>Modelled from the spec: the kind of a command; the routing by property name is missing.\<close>

fun kind_of :: "Command \<Rightarrow> Kind" where
  "kind_of (SetSpeed speed) = Kind_SetSpeed"
| "kind_of (TimedMove dir speed duration) = Kind_TimedMove"
| "kind_of (AbsoluteMove position) = Kind_AbsoluteMove"
| "kind_of (RelativeMove dir delta) = Kind_RelativeMove"
| "kind_of Abort = Kind_Abort"

text \<open>
  Modelled from the spec: the capability bits by name (section 3) and
  \<^verbatim>\<open>supports(capability)\<close> (section 4.1), answered by the header's four queries.
\<close>

datatype Capability = CanMoveAbsolute | CanMoveRelative | CanAbortMotion | VariableSpeed

fun supports :: "'a FocuserInterface_scheme \<Rightarrow> Capability \<Rightarrow> bool" where
  "supports this CanMoveAbsolute = fst (CanAbsMove this)"
| "supports this CanMoveRelative = fst (CanRelMove this)"
| "supports this CanAbortMotion = fst (CanAbort this)"
| "supports this VariableSpeed = fst (HasVariableSpeed this)"

text \<open>
  Modelled from the spec: the capability without which a command is rejected (section
  4.3, step 1). Absolute move, relative move and abort each have their own. Set-speed is
  rejected for none: section 3 has a command that sets the speed accepted when
  HasVariableSpeed is missing, and only its primitive waits on that capability (step 3,
  see \<open>invoke\<close>). For the timed move the spec names no capability and the header has no
  flag of its own for it: what a timed move requires, if anything, is the parameter
  \<open>timed\<close>.
\<close>

fun required :: "Capability option \<Rightarrow> Kind \<Rightarrow> Capability option" where
  "required timed Kind_SetSpeed = None"
| "required timed Kind_TimedMove = timed"
| "required timed Kind_AbsoluteMove = Some CanMoveAbsolute"
| "required timed Kind_RelativeMove = Some CanMoveRelative"
| "required timed Kind_Abort = Some CanAbortMotion"

text \<open>
  Modelled from the spec: step 1 of section 4.3, Validate. A command passes when the
  capability it requires is in the mask, and when it requires none.
\<close>

fun validate :: "'a FocuserInterface_scheme \<Rightarrow> Capability option \<Rightarrow> bool" where
  "validate this None = True"
| "validate this (Some c) = supports this c"

text \<open>
  Modelled from the spec: what a dispatch surfaces to its caller (sections 4.3 and 6):
  a rejection, the tri-state outcome of a move primitive, or the boolean of
  SetSpeed and Abort.
\<close>

datatype DispatchResult = Rejected | Resolved OperationOutcome | Returned bool

text \<open>
  Modelled from the spec: step 2 of section 4.3, Record, by the four functions of section
  4.2; of a timed move they store direction and duration. Abort has no parameters.
\<close>

fun record_request :: "Command \<Rightarrow> MotionState \<Rightarrow> MotionState" where
  "record_request (SetSpeed speed) m = record_speed_request speed m"
| "record_request (TimedMove dir speed duration) m = record_timed_move dir duration m"
| "record_request (AbsoluteMove position) m = record_absolute_move position m"
| "record_request (RelativeMove dir delta) m = record_relative_move dir delta m"
| "record_request Abort m = m"

text \<open>
  Modelled from the spec: steps 3 and 4 of section 4.3, Invoke and Resolve. The
  primitive of the command is called; a tri-state result becomes the outcome of the kind
  and is surfaced, a boolean result is surfaced, and Abort resolves what is in progress.
  SetFocuserSpeed is called only if HasVariableSpeed (\<open>variable\<close>) is set; without it
  the command is accepted and has no hardware effect (section 3): it succeeds and no
  primitive is called.
\<close>

fun invoke ::
  "'h Driver \<Rightarrow> bool \<Rightarrow> Command \<Rightarrow> MotionState \<Rightarrow> 'h Harness \<Rightarrow> DispatchResult \<times> MotionState \<times> 'h Harness" where
  "invoke drv variable (SetSpeed speed) m w =
     (if variable
      then (case call_SetFocuserSpeed drv speed w of (ok, w') \<Rightarrow> (Returned ok, m, w'))
      else (Returned True, m, w))"
| "invoke drv variable (TimedMove dir speed duration) m w =
     (case call_MoveFocuser drv dir speed duration w of
        (r, w') \<Rightarrow> (Resolved r, set_outcome Kind_TimedMove r m, w'))"
| "invoke drv variable (AbsoluteMove position) m w =
     (case call_MoveAbsFocuser drv position w of
        (r, w') \<Rightarrow> (Resolved r, set_outcome Kind_AbsoluteMove r m, w'))"
| "invoke drv variable (RelativeMove dir delta) m w =
     (case call_MoveRelFocuser drv dir delta w of
        (r, w') \<Rightarrow> (Resolved r, set_outcome Kind_RelativeMove r m, w'))"
| "invoke drv variable Abort m w =
     (case call_AbortFocuser drv w of (ok, w') \<Rightarrow> (Returned ok, resolve_in_progress ok m, w'))"

text \<open>
  Modelled from the spec: \<^verbatim>\<open>dispatch\<close>, the four steps of section 4.3. A command whose
  capability is missing is rejected: no primitive is called and no outcome changes, and
  the parameters are recorded all the same (sections 4.2 and 8: recording is
  unconditional). A set-speed is never rejected (section 3). The bodies of
  \<^verbatim>\<open>processNumber\<close> and \<^verbatim>\<open>processSwitch\<close> are missing.
\<close>

definition dispatch ::
  "Capability option \<Rightarrow> 'h Driver \<Rightarrow> Command \<Rightarrow> CommandDispatcher \<Rightarrow> 'h Harness
     \<Rightarrow> DispatchResult \<times> CommandDispatcher \<times> 'h Harness" where
  "dispatch timed drv cmd this w =
     (if \<not> validate this (required timed (kind_of cmd))
      then (Rejected, this\<lparr>motion := record_request cmd (motion this)\<rparr>, w)
      else (case invoke drv (supports this VariableSpeed) cmd (record_request cmd (motion this)) w of
              (r, m', w') \<Rightarrow> (r, this\<lparr>motion := m'\<rparr>, w')))"

text \<open>
  Modelled from the spec: reading MotionState back (section 3), whether it holds the
  parameters of a command as the last ones requested for its kind.
\<close>

fun last_requested :: "Command \<Rightarrow> MotionState \<Rightarrow> bool" where
  "last_requested (SetSpeed speed) m = (requested_speed m = speed)"
| "last_requested (TimedMove dir speed duration) m = (requested_timed m = (dir, duration))"
| "last_requested (AbsoluteMove position) m = (requested_position m = position)"
| "last_requested (RelativeMove dir delta) m = (requested_relative m = (dir, delta))"
| "last_requested Abort m = True"

text \<open>An object on the bench: a capability mask and a MotionState in which every kind is idle.\<close>

definition idle :: MotionState where
  "idle = \<lparr>requested_speed = 0, requested_timed = (FOCUS_INWARD, 0), requested_position = 0,
           requested_relative = (FOCUS_INWARD, 0), outcome = (\<lambda>k. None)\<rparr>"

definition bench :: "32 word \<Rightarrow> MotionState \<Rightarrow> CommandDispatcher" where
  "bench cap m = \<lparr>capability = cap, motion = m\<rparr>"

section \<open>Properties of the capability mask\<close>

lemmas flag_defs =
  FOCUSER_CAN_ABS_MOVE_def FOCUSER_CAN_REL_MOVE_def FOCUSER_CAN_ABORT_def
  FOCUSER_HAS_VARIABLE_SPEED_def

lemmas query_defs =
  GetCapability_def CanAbsMove_def CanRelMove_def CanAbort_def HasVariableSpeed_def

lemma flag_test:
  fixes cap :: "32 word"
  shows "(cap AND push_bit n 1 \<noteq> 0) = bit cap n"
  by (simp add: and_exp_eq_0_iff_not_bit push_bit_eq_mult)

lemma query_bits:
  "fst (CanAbsMove this) = bit (capability this) 0"
  "fst (CanRelMove this) = bit (capability this) 1"
  "fst (CanAbort this) = bit (capability this) 2"
  "fst (HasVariableSpeed this) = bit (capability this) 3"
  by (simp_all only: query_defs flag_defs flag_test fst_conv)

lemma SetCapability_calls_append:
  "SetCapability_calls (caps @ [cap]) this = SetCapability cap (SetCapability_calls caps this)"
  by (induction caps arbitrary: this) simp_all

text \<open>
  C8. After \<^verbatim>\<open>SetCapability(FOCUSER_CAN_ABS_MOVE)\<close>, the mask being exactly the
  absolute-move flag, \<^verbatim>\<open>CanAbsMove()\<close> returns true and \<^verbatim>\<open>CanRelMove()\<close> returns false,
  whatever the object was before.
\<close>

theorem capability_round_trip:
  "fst (CanAbsMove (SetCapability FOCUSER_CAN_ABS_MOVE this)) = True \<and>
   fst (CanRelMove (SetCapability FOCUSER_CAN_ABS_MOVE this)) = False"
  by (simp add: CanAbsMove_def CanRelMove_def SetCapability_def flag_defs)

text \<open>
  C9. Each of \<^verbatim>\<open>CanAbsMove\<close>, \<^verbatim>\<open>CanRelMove\<close>, \<^verbatim>\<open>CanAbort\<close>,
  \<^verbatim>\<open>HasVariableSpeed\<close> and \<^verbatim>\<open>GetCapability\<close> leaves the whole object as it found it,
  the capability mask and every other member, and two objects with the same mask give
  the same answers, whatever their other members hold.
\<close>

theorem capability_queries_pure:
  fixes this :: "'a FocuserInterface_scheme" and that :: "'b FocuserInterface_scheme"
  shows "snd (CanAbsMove this) = this \<and> snd (CanRelMove this) = this \<and>
         snd (CanAbort this) = this \<and> snd (HasVariableSpeed this) = this \<and>
         snd (GetCapability this) = this \<and>
         (capability this = capability that \<longrightarrow>
            fst (CanAbsMove this) = fst (CanAbsMove that) \<and>
            fst (CanRelMove this) = fst (CanRelMove that) \<and>
            fst (CanAbort this) = fst (CanAbort that) \<and>
            fst (HasVariableSpeed this) = fst (HasVariableSpeed that) \<and>
            fst (GetCapability this) = fst (GetCapability that))"
  by (simp add: query_defs)

theorem capability_queries_pure_witness:
  "capability \<lparr>capability = 5, \<dots> = True\<rparr> = capability \<lparr>capability = 5, \<dots> = False\<rparr> \<and>
   \<lparr>capability = 5, \<dots> = True\<rparr> \<noteq> \<lparr>capability = 5, \<dots> = False\<rparr> \<and>
   snd (CanAbort \<lparr>capability = 5, \<dots> = True\<rparr>) = \<lparr>capability = 5, \<dots> = True\<rparr> \<and>
   fst (CanAbsMove \<lparr>capability = 5, \<dots> = True\<rparr>) = fst (CanAbsMove \<lparr>capability = 5, \<dots> = False\<rparr>) \<and>
   fst (CanRelMove \<lparr>capability = 5, \<dots> = True\<rparr>) = fst (CanRelMove \<lparr>capability = 5, \<dots> = False\<rparr>) \<and>
   fst (CanAbort \<lparr>capability = 5, \<dots> = True\<rparr>) = fst (CanAbort \<lparr>capability = 5, \<dots> = False\<rparr>) \<and>
   fst (HasVariableSpeed \<lparr>capability = 5, \<dots> = True\<rparr>) =
     fst (HasVariableSpeed \<lparr>capability = 5, \<dots> = False\<rparr>) \<and>
   fst (GetCapability \<lparr>capability = 5, \<dots> = True\<rparr>) = fst (GetCapability \<lparr>capability = 5, \<dots> = False\<rparr>)"
  using capability_queries_pure
    [of "\<lparr>capability = 5, \<dots> = True\<rparr>" "\<lparr>capability = 5, \<dots> = False\<rparr>"]
  by simp

text \<open>
  C10. \<^verbatim>\<open>SetCapability(cap)\<close> takes every 32-bit value as it is, bits outside the four
  flags included: \<^verbatim>\<open>GetCapability()\<close> then returns exactly \<open>cap\<close>. A later call replaces
  the mask of an earlier one, so after any sequence of calls the mask is that of the last
  call, and each query answers by its own bit of that last value.
\<close>

theorem SetCapability_replaces_mask:
  fixes this :: "'a FocuserInterface_scheme"
  shows "fst (GetCapability (SetCapability cap this)) = cap \<and>
         SetCapability cap (SetCapability cap0 this) = SetCapability cap this \<and>
         fst (GetCapability (SetCapability_calls (caps @ [cap]) this)) = cap \<and>
         fst (CanAbsMove (SetCapability_calls (caps @ [cap]) this)) = bit cap 0 \<and>
         fst (CanRelMove (SetCapability_calls (caps @ [cap]) this)) = bit cap 1 \<and>
         fst (CanAbort (SetCapability_calls (caps @ [cap]) this)) = bit cap 2 \<and>
         fst (HasVariableSpeed (SetCapability_calls (caps @ [cap]) this)) = bit cap 3 \<and>
         FocuserInterface.more (SetCapability_calls (caps @ [cap]) this) = FocuserInterface.more this"
proof -
  have mask: "capability (SetCapability_calls (caps @ [cap]) this) = cap"
    by (simp add: SetCapability_calls_append SetCapability_def)
  have rest: "FocuserInterface.more (SetCapability_calls cs this) = FocuserInterface.more this" for cs
    by (induction cs arbitrary: this) (simp_all add: SetCapability_def)
  show ?thesis
    using mask rest [of "caps @ [cap]"]
    by (simp add: query_bits GetCapability_def SetCapability_def)
qed

section \<open>Properties of the dispatcher\<close>

lemma record_request_outcome:
  "outcome (record_request cmd m) = outcome m"
  by (cases cmd)
     (simp_all add: record_speed_request_def record_timed_move_def record_absolute_move_def
        record_relative_move_def)

lemma record_request_last:
  "last_requested cmd (record_request cmd m)"
  by (cases cmd)
     (simp_all add: record_speed_request_def record_timed_move_def record_absolute_move_def
        record_relative_move_def)

lemma dispatch_unsupported:
  "\<not> validate this (required timed (kind_of cmd)) \<Longrightarrow>
     dispatch timed drv cmd this w = (Rejected, this\<lparr>motion := record_request cmd (motion this)\<rparr>, w)"
  by (simp add: dispatch_def)

lemmas bench_defs =
  bench_def idle_def no_calls_def test_double_def query_defs flag_defs

lemmas call_defs =
  call_SetFocuserSpeed_def call_MoveFocuser_def call_MoveAbsFocuser_def
  call_MoveRelFocuser_def call_AbortFocuser_def logged_def

lemma validate_mask:
  fixes this :: "'a FocuserInterface_scheme" and that :: "'b FocuserInterface_scheme"
  assumes "capability this = capability that"
  shows "validate this r = validate that r"
proof (cases r)
  case None
  then show ?thesis by simp
next
  case (Some c)
  then show ?thesis using assms by (cases c) (simp_all add: query_defs)
qed

lemma invoke_harness:
  "fst (invoke drv variable cmd m w) = fst (invoke drv variable cmd m' w) \<and>
   snd (snd (invoke drv variable cmd m w)) = snd (snd (invoke drv variable cmd m' w))"
  by (cases cmd) (simp_all split: prod.split)

lemma dispatch_result:
  "fst (dispatch timed drv cmd this w) =
     (if \<not> validate this (required timed (kind_of cmd)) then Rejected
      else fst (invoke drv (fst (HasVariableSpeed this)) cmd (record_request cmd (motion this)) w))"
  by (simp add: dispatch_def split: prod.split)

lemma dispatch_harness:
  "snd (snd (dispatch timed drv cmd this w)) =
     (if \<not> validate this (required timed (kind_of cmd)) then w
      else snd (snd (invoke drv (fst (HasVariableSpeed this)) cmd (record_request cmd (motion this)) w)))"
  by (simp add: dispatch_def split: prod.split)

lemma dispatch_mask:
  assumes "capability this = capability that"
  shows "fst (dispatch timed drv cmd this w) = fst (dispatch timed drv cmd that w) \<and>
         snd (snd (dispatch timed drv cmd this w)) = snd (snd (dispatch timed drv cmd that w))"
proof -
  have v: "validate this (required timed (kind_of cmd)) = validate that (required timed (kind_of cmd))"
    using assms by (rule validate_mask)
  have s: "fst (HasVariableSpeed this) = fst (HasVariableSpeed that)"
    using assms by (simp add: HasVariableSpeed_def)
  have i: "fst (invoke drv b cmd (record_request cmd (motion this)) w) =
        fst (invoke drv b cmd (record_request cmd (motion that)) w) \<and>
      snd (snd (invoke drv b cmd (record_request cmd (motion this)) w)) =
        snd (snd (invoke drv b cmd (record_request cmd (motion that)) w))" for b
    by (rule invoke_harness)
  show ?thesis
    unfolding dispatch_result dispatch_harness v s using i by simp
qed

text \<open>
  C1, as amended. For every capability mask and every command, the dispatch calls the
  primitive of the command, once, with the command's arguments and on the driver as it
  stands, exactly if the capability of the command is in the mask: HasVariableSpeed for
  set-speed, CanMoveAbsolute, CanMoveRelative and CanAbort for the two moves and the
  abort, and for a timed move whatever timed moves require, if anything. What the
  primitive returns is surfaced. If the capability is not in the mask, no primitive is
  called and the driver and the call list stay as they were; the dispatch then returns a
  rejection for a timed, absolute or relative move and for an abort, and success for a
  set-speed, which is accepted without hardware effect.
\<close>

theorem dispatch_invokes_iff_capability:
  "(fst (HasVariableSpeed this) \<longrightarrow>
      fst (dispatch timed drv (SetSpeed v) this w) =
        Returned (fst (SetFocuserSpeed drv v (driver_state w))) \<and>
      snd (snd (dispatch timed drv (SetSpeed v) this w)) =
        \<lparr>driver_state = snd (SetFocuserSpeed drv v (driver_state w)),
         calls = calls w @ [Call_SetFocuserSpeed v]\<rparr>) \<and>
   (\<not> fst (HasVariableSpeed this) \<longrightarrow>
      fst (dispatch timed drv (SetSpeed v) this w) = Returned True \<and>
      snd (snd (dispatch timed drv (SetSpeed v) this w)) = w) \<and>
   (validate this timed \<longrightarrow>
      fst (dispatch timed drv (TimedMove dir speed duration) this w) =
        Resolved (fst (MoveFocuser drv dir speed duration (driver_state w))) \<and>
      snd (snd (dispatch timed drv (TimedMove dir speed duration) this w)) =
        \<lparr>driver_state = snd (MoveFocuser drv dir speed duration (driver_state w)),
         calls = calls w @ [Call_MoveFocuser dir speed duration]\<rparr>) \<and>
   (\<not> validate this timed \<longrightarrow>
      fst (dispatch timed drv (TimedMove dir speed duration) this w) = Rejected \<and>
      snd (snd (dispatch timed drv (TimedMove dir speed duration) this w)) = w) \<and>
   (fst (CanAbsMove this) \<longrightarrow>
      fst (dispatch timed drv (AbsoluteMove position) this w) =
        Resolved (fst (MoveAbsFocuser drv position (driver_state w))) \<and>
      snd (snd (dispatch timed drv (AbsoluteMove position) this w)) =
        \<lparr>driver_state = snd (MoveAbsFocuser drv position (driver_state w)),
         calls = calls w @ [Call_MoveAbsFocuser position]\<rparr>) \<and>
   (\<not> fst (CanAbsMove this) \<longrightarrow>
      fst (dispatch timed drv (AbsoluteMove position) this w) = Rejected \<and>
      snd (snd (dispatch timed drv (AbsoluteMove position) this w)) = w) \<and>
   (fst (CanRelMove this) \<longrightarrow>
      fst (dispatch timed drv (RelativeMove rdir delta) this w) =
        Resolved (fst (MoveRelFocuser drv rdir delta (driver_state w))) \<and>
      snd (snd (dispatch timed drv (RelativeMove rdir delta) this w)) =
        \<lparr>driver_state = snd (MoveRelFocuser drv rdir delta (driver_state w)),
         calls = calls w @ [Call_MoveRelFocuser rdir delta]\<rparr>) \<and>
   (\<not> fst (CanRelMove this) \<longrightarrow>
      fst (dispatch timed drv (RelativeMove rdir delta) this w) = Rejected \<and>
      snd (snd (dispatch timed drv (RelativeMove rdir delta) this w)) = w) \<and>
   (fst (CanAbort this) \<longrightarrow>
      fst (dispatch timed drv Abort this w) = Returned (fst (AbortFocuser drv (driver_state w))) \<and>
      snd (snd (dispatch timed drv Abort this w)) =
        \<lparr>driver_state = snd (AbortFocuser drv (driver_state w)),
         calls = calls w @ [Call_AbortFocuser]\<rparr>) \<and>
   (\<not> fst (CanAbort this) \<longrightarrow>
      fst (dispatch timed drv Abort this w) = Rejected \<and>
      snd (snd (dispatch timed drv Abort this w)) = w)"
proof -
  have set_speed: "dispatch timed drv (SetSpeed v) this w =
      (if fst (HasVariableSpeed this)
       then (Returned (fst (SetFocuserSpeed drv v (driver_state w))),
             this\<lparr>motion := record_speed_request v (motion this)\<rparr>,
             \<lparr>driver_state = snd (SetFocuserSpeed drv v (driver_state w)),
              calls = calls w @ [Call_SetFocuserSpeed v]\<rparr>)
       else (Returned True, this\<lparr>motion := record_speed_request v (motion this)\<rparr>, w))"
    by (simp add: dispatch_def call_defs split: prod.split)
  have timed_move: "fst (dispatch timed drv (TimedMove dir speed duration) this w) =
      (if validate this timed
       then Resolved (fst (MoveFocuser drv dir speed duration (driver_state w))) else Rejected) \<and>
    snd (snd (dispatch timed drv (TimedMove dir speed duration) this w)) =
      (if validate this timed
       then \<lparr>driver_state = snd (MoveFocuser drv dir speed duration (driver_state w)),
             calls = calls w @ [Call_MoveFocuser dir speed duration]\<rparr>
       else w)"
    by (simp add: dispatch_def call_defs split: prod.split)
  have absolute: "fst (dispatch timed drv (AbsoluteMove position) this w) =
      (if fst (CanAbsMove this)
       then Resolved (fst (MoveAbsFocuser drv position (driver_state w))) else Rejected) \<and>
    snd (snd (dispatch timed drv (AbsoluteMove position) this w)) =
      (if fst (CanAbsMove this)
       then \<lparr>driver_state = snd (MoveAbsFocuser drv position (driver_state w)),
             calls = calls w @ [Call_MoveAbsFocuser position]\<rparr>
       else w)"
    by (simp add: dispatch_def call_defs split: prod.split)
  have relative: "fst (dispatch timed drv (RelativeMove rdir delta) this w) =
      (if fst (CanRelMove this)
       then Resolved (fst (MoveRelFocuser drv rdir delta (driver_state w))) else Rejected) \<and>
    snd (snd (dispatch timed drv (RelativeMove rdir delta) this w)) =
      (if fst (CanRelMove this)
       then \<lparr>driver_state = snd (MoveRelFocuser drv rdir delta (driver_state w)),
             calls = calls w @ [Call_MoveRelFocuser rdir delta]\<rparr>
       else w)"
    by (simp add: dispatch_def call_defs split: prod.split)
  have abort: "fst (dispatch timed drv Abort this w) =
      (if fst (CanAbort this)
       then Returned (fst (AbortFocuser drv (driver_state w))) else Rejected) \<and>
    snd (snd (dispatch timed drv Abort this w)) =
      (if fst (CanAbort this)
       then \<lparr>driver_state = snd (AbortFocuser drv (driver_state w)),
             calls = calls w @ [Call_AbortFocuser]\<rparr>
       else w)"
    by (simp add: dispatch_def call_defs split: prod.split)
  show ?thesis
    by (simp add: set_speed timed_move absolute relative abort)
qed

theorem dispatch_invokes_iff_capability_witness:
  "fst (CanAbsMove (bench 5 idle)) \<and>
   fst (dispatch None (test_double True InProgress) (AbsoluteMove 1000) (bench 5 idle) no_calls) =
     Resolved InProgress \<and>
   snd (snd (dispatch None (test_double True InProgress) (AbsoluteMove 1000) (bench 5 idle) no_calls)) =
     \<lparr>driver_state = 1, calls = [Call_MoveAbsFocuser 1000]\<rparr> \<and>
   \<not> fst (CanRelMove (bench 5 idle)) \<and>
   fst (dispatch None (test_double True InProgress) (RelativeMove FOCUS_OUTWARD 10) (bench 5 idle)
     no_calls) = Rejected \<and>
   snd (snd (dispatch None (test_double True InProgress) (RelativeMove FOCUS_OUTWARD 10) (bench 5 idle)
     no_calls)) = \<lparr>driver_state = 0, calls = []\<rparr> \<and>
   fst (CanAbort (bench 5 idle)) \<and>
   snd (snd (dispatch None (test_double True InProgress) Abort (bench 5 idle) no_calls)) =
     \<lparr>driver_state = 1, calls = [Call_AbortFocuser]\<rparr> \<and>
   \<not> fst (HasVariableSpeed (bench 5 idle)) \<and>
   fst (dispatch None (test_double True InProgress) (SetSpeed 3) (bench 5 idle) no_calls) =
     Returned True \<and>
   snd (snd (dispatch None (test_double True InProgress) (SetSpeed 3) (bench 5 idle) no_calls)) =
     \<lparr>driver_state = 0, calls = []\<rparr> \<and>
   validate (bench 5 idle) None \<and>
   snd (snd (dispatch None (test_double True InProgress) (TimedMove FOCUS_INWARD 4 250) (bench 5 idle)
     no_calls)) = \<lparr>driver_state = 1, calls = [Call_MoveFocuser FOCUS_INWARD 4 250]\<rparr>"
proof -
  have mask: "fst (CanAbsMove (bench 5 idle)) \<and> \<not> fst (CanRelMove (bench 5 idle)) \<and>
      fst (CanAbort (bench 5 idle)) \<and> \<not> fst (HasVariableSpeed (bench 5 idle)) \<and>
      validate (bench 5 idle) None"
    by (simp add: bench_defs)
  have double: "driver_state no_calls = 0 \<and> calls no_calls = [] \<and>
      no_calls = \<lparr>driver_state = 0, calls = []\<rparr> \<and>
      MoveAbsFocuser (test_double True InProgress) 1000 0 = (InProgress, 1) \<and>
      MoveFocuser (test_double True InProgress) FOCUS_INWARD 4 250 0 = (InProgress, 1) \<and>
      AbortFocuser (test_double True InProgress) 0 = (True, 1)"
    by (simp add: no_calls_def test_double_def)
  show ?thesis
    using mask double
      dispatch_invokes_iff_capability [where this = "bench 5 idle" and timed = None
        and drv = "test_double True InProgress" and w = no_calls and v = 3
        and dir = FOCUS_INWARD and speed = 4 and duration = 250 and position = 1000
        and rdir = FOCUS_OUTWARD and delta = 10]
    by simp
qed

text \<open>
  C1 as first stated has every command with a missing capability rejected. A set-speed
  on the empty mask is not: HasVariableSpeed is missing and the dispatch returns success.
\<close>

theorem set_speed_without_capability_not_rejected:
  "\<not> fst (HasVariableSpeed (bench 0 idle)) \<and>
   fst (dispatch None (test_double True Completed) (SetSpeed 3) (bench 0 idle) no_calls) = Returned True \<and>
   fst (dispatch None (test_double True Completed) (SetSpeed 3) (bench 0 idle) no_calls) \<noteq> Rejected"
  by (simp add: dispatch_def bench_defs)

text \<open>
  C2. A dispatch that is rejected because the capability is missing still records the
  parameters of the request in MotionState and changes the outcome of no kind. So after
  a rejected absolute move to position 500 the last requested position is 500, and the
  outcome of the absolute move is what it was before.
\<close>

theorem rejected_dispatch_records_request:
  assumes "\<not> validate this (required timed (kind_of cmd))"
  shows "fst (dispatch timed drv cmd this w) = Rejected \<and>
         last_requested cmd (motion (fst (snd (dispatch timed drv cmd this w)))) \<and>
         (\<forall>k. current_outcome (motion (fst (snd (dispatch timed drv cmd this w)))) k =
              current_outcome (motion this) k) \<and>
         (cmd = AbsoluteMove 500 \<longrightarrow>
            requested_position (motion (fst (snd (dispatch timed drv cmd this w)))) = 500 \<and>
            current_outcome (motion (fst (snd (dispatch timed drv cmd this w)))) Kind_AbsoluteMove =
              current_outcome (motion this) Kind_AbsoluteMove)"
proof -
  have out: "dispatch timed drv cmd this w =
      (Rejected, this\<lparr>motion := record_request cmd (motion this)\<rparr>, w)"
    using assms by (rule dispatch_unsupported)
  have rejected: "fst (dispatch timed drv cmd this w) = Rejected"
    by (simp add: out)
  have after: "motion (fst (snd (dispatch timed drv cmd this w))) = record_request cmd (motion this)"
    by (simp add: out)
  have stored: "last_requested cmd (record_request cmd (motion this))"
    by (rule record_request_last)
  have kept: "current_outcome (record_request cmd (motion this)) k = current_outcome (motion this) k" for k
    by (simp add: current_outcome_def record_request_outcome)
  have position: "requested_position (record_request cmd (motion this)) = 500" if "cmd = AbsoluteMove 500"
    using that by (simp add: record_absolute_move_def)
  show ?thesis
    unfolding after using rejected stored kept position by blast
qed

theorem rejected_dispatch_records_request_witness:
  "\<not> validate (bench 2 (set_outcome Kind_AbsoluteMove InProgress idle)) (required None (kind_of (AbsoluteMove 500))) \<and>
   fst (dispatch None (test_double True Completed) (AbsoluteMove 500)
     (bench 2 (set_outcome Kind_AbsoluteMove InProgress idle)) no_calls) = Rejected \<and>
   requested_position (motion (bench 2 (set_outcome Kind_AbsoluteMove InProgress idle))) = 0 \<and>
   requested_position (motion (fst (snd (dispatch None (test_double True Completed)
     (AbsoluteMove 500) (bench 2 (set_outcome Kind_AbsoluteMove InProgress idle)) no_calls)))) = 500 \<and>
   current_outcome (motion (fst (snd (dispatch None (test_double True Completed)
     (AbsoluteMove 500) (bench 2 (set_outcome Kind_AbsoluteMove InProgress idle)) no_calls))))
     Kind_AbsoluteMove = Some InProgress"
proof -
  have absent: "\<not> validate (bench 2 (set_outcome Kind_AbsoluteMove InProgress idle)) (required None (kind_of (AbsoluteMove 500)))"
    by (simp add: bench_defs)
  have before: "requested_position (motion (bench 2 (set_outcome Kind_AbsoluteMove InProgress idle))) = 0 \<and>
      current_outcome (motion (bench 2 (set_outcome Kind_AbsoluteMove InProgress idle))) Kind_AbsoluteMove =
        Some InProgress"
    by (simp add: bench_def idle_def set_outcome_def current_outcome_def)
  show ?thesis
    using absent before
      rejected_dispatch_records_request [OF absent, of "test_double True Completed" no_calls]
    by simp
qed

text \<open>
  C7. Without HasVariableSpeed in the mask a set-speed command is accepted and has no
  hardware effect: the dispatch returns success, SetFocuserSpeed is not called (the
  driver and the call list are what they were), no outcome changes, and what any later
  command returns and does to the driver is the same as if the set-speed had never been
  dispatched.
\<close>

theorem set_speed_without_variable_speed_accepted:
  assumes "\<not> fst (HasVariableSpeed this)"
  shows "fst (dispatch timed drv (SetSpeed v) this w) = Returned True \<and>
         snd (snd (dispatch timed drv (SetSpeed v) this w)) = w \<and>
         (\<forall>k. current_outcome (motion (fst (snd (dispatch timed drv (SetSpeed v) this w)))) k =
              current_outcome (motion this) k) \<and>
         fst (dispatch timed drv cmd (fst (snd (dispatch timed drv (SetSpeed v) this w))) w') =
           fst (dispatch timed drv cmd this w') \<and>
         snd (snd (dispatch timed drv cmd (fst (snd (dispatch timed drv (SetSpeed v) this w))) w')) =
           snd (snd (dispatch timed drv cmd this w'))"
proof -
  have out: "dispatch timed drv (SetSpeed v) this w =
      (Returned True, this\<lparr>motion := record_speed_request v (motion this)\<rparr>, w)"
    using assms by (simp add: dispatch_def)
  have same_mask: "capability (this\<lparr>motion := record_speed_request v (motion this)\<rparr>) = capability this"
    by simp
  have outcomes: "current_outcome (record_speed_request v (motion this)) k =
      current_outcome (motion this) k" for k
    by (simp add: current_outcome_def record_speed_request_def)
  show ?thesis
    using dispatch_mask [OF same_mask, of timed drv cmd w'] outcomes
    by (simp add: out)
qed

theorem set_speed_without_variable_speed_accepted_witness:
  "\<not> fst (HasVariableSpeed (bench 7 idle)) \<and>
   fst (dispatch None (test_double False Failed) (SetSpeed 9) (bench 7 idle) no_calls) = Returned True \<and>
   calls (snd (snd (dispatch None (test_double False Failed) (SetSpeed 9) (bench 7 idle) no_calls))) = [] \<and>
   driver_state (snd (snd (dispatch None (test_double False Failed) (SetSpeed 9) (bench 7 idle)
     no_calls))) = 0 \<and>
   calls (snd (snd (dispatch None (test_double False Failed) (TimedMove FOCUS_INWARD 4 100)
     (fst (snd (dispatch None (test_double False Failed) (SetSpeed 9) (bench 7 idle) no_calls)))
     no_calls))) = [Call_MoveFocuser FOCUS_INWARD 4 100]"
proof -
  have absent: "\<not> fst (HasVariableSpeed (bench 7 idle))"
    by (simp add: bench_defs)
  have direct: "calls (snd (snd (dispatch None (test_double False Failed) (TimedMove FOCUS_INWARD 4 100)
      (bench 7 idle) no_calls))) = [Call_MoveFocuser FOCUS_INWARD 4 100]"
    by (simp add: dispatch_def call_defs no_calls_def test_double_def)
  show ?thesis
    using absent direct
      set_speed_without_variable_speed_accepted [OF absent, of None "test_double False Failed" 9
        no_calls "TimedMove FOCUS_INWARD 4 100" no_calls]
    by (simp add: no_calls_def)
qed

end
